theory Spec2Isabelle
  imports Complex_Main "HOL-Library.Option_ord"
begin

section \<open>Configuration constants\<close>



section \<open>PAR2 block sizing\<close>





section \<open>Errors\<close>

text \<open>
  The exception classes the verified functions raise. The first three derive from
  \<^verbatim>\<open>TaketakeRuntimeError\<close>. \<open>AssertionError\<close> is what a failed \<^verbatim>\<open>assert\<close> raises and
  \<open>ValueError\<close> is what the standard library's date constructors raise. The three after
  them are the \<^verbatim>\<open>Stepper.QueueError\<close> classes; \<open>KeyError\<close> and \<open>TypeError\<close> are Python's
  built-in exceptions.
\<close>

datatype error =
    TimestampGrokError
  | NoSuitableAudioSpan
  | XdeltaMismatch
  | AssertionError
  | ValueError
  | PreSyncTokenError
  | DesynchronizationError
  | DuplicateTokenError
  | KeyError
  | TypeError

section \<open>Silence inversion and the speech span\<close>











section \<open>Strings\<close>

text \<open>
  A string is a sequence of code points below 256. These are the ones among them that
  Python's \<^verbatim>\<open>str.isspace\<close> accepts; \<^verbatim>\<open>str.split()\<close> and \<^verbatim>\<open>str.strip()\<close> treat them as
  whitespace.
\<close>

definition is_space :: "char \<Rightarrow> bool" where
  "is_space c \<longleftrightarrow>
     c \<in> set [CHR '' '', CHR 0x09, CHR 0x0A, CHR 0x0B, CHR 0x0C, CHR 0x0D,
               CHR 0x1C, CHR 0x1D, CHR 0x1E, CHR 0x1F, CHR 0x85, CHR 0xA0]"

text \<open>
  \<^verbatim>\<open>s.split()\<close> with no argument: the maximal runs of non-whitespace characters. The
  first argument holds the word being read.
\<close>

fun split_words :: "string \<Rightarrow> string \<Rightarrow> string list" where
  "split_words w [] = (if w = [] then [] else [w])"
| "split_words w (c # cs) =
     (if is_space c then (if w = [] then [] else [w]) @ split_words [] cs
      else split_words (w @ [c]) cs)"

definition str_split :: "string \<Rightarrow> string list" where
  "str_split s = split_words [] s"

text \<open>\<^verbatim>\<open>s.strip()\<close>: without the whitespace at both ends.\<close>

definition strip :: "string \<Rightarrow> string" where
  "strip s = rev (dropWhile is_space (rev (dropWhile is_space s)))"



section \<open>Spoken timestamps\<close>

text \<open>
  \<^verbatim>\<open>reverse_hashify(s)\<close> assigns \<^verbatim>\<open>d[word] = i\<close> for each \<^verbatim>\<open>(i, word)\<close> of
  \<^verbatim>\<open>enumerate(s.split())\<close>, so a repeated word keeps its last position.
\<close>

definition reverse_hashify :: "string \<Rightarrow> (string \<rightharpoonup> nat)" where
  "reverse_hashify s =
     fold (\<lambda>(i, word) d. d(word \<mapsto> i)) (zip [0..<length (str_split s)] (str_split s)) Map.empty"

text \<open>The tables of \<^verbatim>\<open>class TimestampWords\<close>.\<close>

definition days :: "string \<rightharpoonup> nat" where
  "days = reverse_hashify ''sunday monday tuesday wednesday thursday friday saturday sunday''"

definition months :: "string \<rightharpoonup> nat" where
  "months = reverse_hashify
     ''january february march april may june july august september october november december''"

definition corrections :: "string \<rightharpoonup> string" where
  "corrections = [''why'' \<mapsto> ''one'', ''oh'' \<mapsto> ''zero'']"

definition ordinals :: "string \<rightharpoonup> nat" where
  "ordinals = reverse_hashify
     (''zeroth    first    second  third      fourth     fifth     sixth     seventh     eighth     ninth '' @
      ''tenth     eleventh twelfth thirteenth fourteenth fifteenth sixteenth seventeenth eighteenth nineteenth '' @
      ''twentieth 21st     22nd    23rd       24th       25th      26th      27th        28th       29th '' @
      ''thirtieth'')"

text \<open>
  \<^verbatim>\<open>to_num(word)\<close>. The argument is \<open>None\<close> where the source passes Python's \<^verbatim>\<open>None\<close>
  (\<^verbatim>\<open>cur_word()\<close> past the end of the list). The first parameter stands for
  \<^verbatim>\<open>w2n.word_to_num\<close> of the external package word2number on a string, with \<open>None\<close> for
  its \<^verbatim>\<open>ValueError\<close>; on a non-string the package raises \<^verbatim>\<open>ValueError\<close>, which
  \<^verbatim>\<open>to_num\<close> turns into \<^verbatim>\<open>None\<close>.
\<close>

definition to_num :: "(string \<Rightarrow> int option) \<Rightarrow> string option \<Rightarrow> int option" where
  "to_num w2n word =
     (case word of
        None \<Rightarrow> None
      | Some w \<Rightarrow> w2n (case corrections w of Some c \<Rightarrow> c | None \<Rightarrow> w))"

text \<open>
  The loop of \<^verbatim>\<open>pop_optional_words\<close> over \<^verbatim>\<open>opt_words.split()\<close>; the result is the list
  \<^verbatim>\<open>popped\<close> and the word list after the pops.
\<close>

fun pop_words :: "string list \<Rightarrow> string list \<Rightarrow> string list \<times> string list" where
  "pop_words word_list [] = ([], word_list)"
| "pop_words word_list (word # rest) =
     (if word_list \<noteq> [] \<and> hd word_list = word
      then (let (popped, word_list') = pop_words (tl word_list) rest
            in (hd word_list # popped, word_list'))
      else pop_words word_list rest)"

text \<open>
  \<^verbatim>\<open>pop_optional_words(word_list, opt_words)\<close> returns \<^verbatim>\<open>" ".join(popped)\<close>, which callers
  only test for truth: it is true exactly when a word was popped, the result \<open>fst\<close> here.
\<close>

definition pop_optional_words :: "string list \<Rightarrow> string \<Rightarrow> bool \<times> string list" where
  "pop_optional_words word_list opt_words =
     (let (popped, word_list') = pop_words word_list (str_split opt_words)
      in (popped \<noteq> [], word_list'))"

text \<open>\<^verbatim>\<open>grok_digit_pair(word_list)\<close>: the value and the word list after the pops.\<close>

definition grok_digit_pair ::
  "(string \<Rightarrow> int option) \<Rightarrow> string list \<Rightarrow> int \<times> string list" where
  "grok_digit_pair w2n word_list =
     (if word_list \<noteq> [] then
        (case to_num w2n (Some (hd word_list)) of
           None \<Rightarrow> (0, word_list)
         | Some v \<Rightarrow>
             (let word_list1 = tl word_list in
              if word_list1 \<noteq> [] \<and> (v = 0 \<or> v \<ge> 20) then
                (case to_num w2n (Some (hd word_list1)) of
                   Some next_num \<Rightarrow>
                     if next_num < 10 then (v + next_num, tl word_list1) else (v, word_list1)
                 | None \<Rightarrow> (v, word_list1))
              else (v, word_list1)))
      else (0, word_list))"

text \<open>
  \<^verbatim>\<open>grok_time_words(word_list)\<close>: hour, minute, second and the unparsed words. When the
  hour is followed by \<^verbatim>\<open>second\<close> or \<^verbatim>\<open>seconds\<close>, \<^verbatim>\<open>done\<close> is set and
  \<^verbatim>\<open>not done and pop_optional_words(...)\<close> is false without popping, so the \<^verbatim>\<open>else\<close>
  branch runs.
\<close>

definition grok_time_words ::
  "(string \<Rightarrow> int option) \<Rightarrow> string list \<Rightarrow> int \<times> int \<times> int \<times> string list" where
  "grok_time_words w2n word_list =
     (let (hour0, wl1) = grok_digit_pair w2n word_list;
          (is_sec, wl2) = pop_optional_words wl1 ''second seconds'';
          second1 = (if is_sec then hour0 else 0);
          hour1 = (if is_sec then 0 else hour0);
          done1 = is_sec;
          (is_min, wl3) = (if done1 then (False, wl2)
                           else pop_optional_words wl2 ''minute minutes'');
          (hour2, minute2, second2, done2, wl6) =
            (if \<not> done1 \<and> is_min then
               (let (_, wl4) = pop_optional_words wl3 ''and''
                in (0, hour1, second1, done1, wl4))
             else
               (let (_, wl4) = pop_optional_words wl3
                                 ''hundred hour hours oh clock oclock o'clock and'';
                    (minute1, wl5) = grok_digit_pair w2n wl4;
                    (is_sec2, wl6) = pop_optional_words wl5 ''second seconds''
                in if is_sec2 then (hour1, 0, minute1, True, wl6)
                   else (let (_, wl7) = pop_optional_words wl6
                                          ''oh clock oclock o'clock minute minutes and''
                         in (hour1, minute1, second1, done1, wl7))))
      in if \<not> done2 then
           (let (second3, wl7) = grok_digit_pair w2n wl6;
                (_, wl8) = pop_optional_words wl7 ''second seconds''
            in (hour2, minute2, second3, wl8))
         else (hour2, minute2, second2, wl6))"


text \<open>
  \<^verbatim>\<open>grok_day_of_month(word_list)\<close>: the day and the word list after the pops, or the
  \<^verbatim>\<open>TimestampGrokError\<close> it raises.
\<close>

definition grok_day_of_month ::
  "(string \<Rightarrow> int option) \<Rightarrow> string list \<Rightarrow> error + (int \<times> string list)" where
  "grok_day_of_month w2n word_list =
     (if word_list = [] then Inl TimestampGrokError
      else
        (let (day0, idx0) = (case to_num w2n (Some (word_list ! 0)) of
                               None \<Rightarrow> (0, 0)
                             | Some d \<Rightarrow> (d, 1 :: nat))
         in if length word_list > idx0 \<and> ordinals (word_list ! idx0) \<noteq> None then
              (let day1 = day0 + int (the (ordinals (word_list ! idx0)));
                   idx1 = idx0 + 1
               in if day1 < 1 \<or> day1 > 31 then Inl TimestampGrokError
                  else Inr (day1, drop idx1 word_list))
            else Inl TimestampGrokError))"

text \<open>The local function \<^verbatim>\<open>cur_word()\<close> of \<^verbatim>\<open>grok_year\<close>.\<close>

definition cur_word :: "string list \<Rightarrow> nat \<Rightarrow> string option" where
  "cur_word word_list idx = (if length word_list > idx then Some (word_list ! idx) else None)"

text \<open>
  The branch \<^verbatim>\<open>if 1 <= year <= 3\<close> of \<^verbatim>\<open>grok_year\<close>, entered with \<^verbatim>\<open>idx = 1\<close>: the year
  and \<^verbatim>\<open>idx\<close> when the branch is left.
\<close>

definition grok_year_thousand ::
  "(string \<Rightarrow> int option) \<Rightarrow> string list \<Rightarrow> int \<Rightarrow> error + (int \<times> nat)" where
  "grok_year_thousand w2n word_list year0 =
     (if cur_word word_list 1 = Some ''thousand'' then
        (let idx2 = 2;
             year1 = year0 * 1000;
             idx3 = (if cur_word word_list idx2 = Some ''and'' then idx2 + 1 else idx2)
         in case to_num w2n (cur_word word_list idx3) of
              None \<Rightarrow> Inr (year1, idx3)
            | Some num \<Rightarrow>
                (let idx4 = idx3 + 1 in
                 if num < 10 then
                   (if cur_word word_list idx4 = Some ''hundred'' then
                      (let idx5 = idx4 + 1;
                           year2 = year1 + num * 100;
                           idx6 = (if cur_word word_list idx5 = Some ''and''
                                   then idx5 + 1 else idx5)
                       in case to_num w2n (cur_word word_list idx6) of
                            None \<Rightarrow> Inr (year2, idx6)
                          | Some num2 \<Rightarrow>
                              (let idx7 = idx6 + 1;
                                   year3 = year2 + num2
                               in case to_num w2n (cur_word word_list idx7) of
                                    None \<Rightarrow> Inr (year3, idx7)
                                  | Some num3 \<Rightarrow>
                                      if num3 < 10 then Inr (year3 + num3, idx7 + 1)
                                      else Inr (year3, idx7)))
                    else Inr (year1 + num, idx4))
                 else if 10 \<le> num \<and> num < 20 then Inr (year1 + num, idx4)
                 else if num < 30 then
                   (case to_num w2n (cur_word word_list idx4) of
                      None \<Rightarrow> Inr (year1 + num, idx4)
                    | Some num2 \<Rightarrow>
                        if num2 < 10 then Inr (year1 + num + num2, idx4 + 1)
                        else Inr (year1 + num, idx4))
                 else Inr (year1, idx4)))
      else Inl TimestampGrokError)"

text \<open>The branch \<^verbatim>\<open>elif 19 <= year <= 29\<close> of \<^verbatim>\<open>grok_year\<close>, entered with \<^verbatim>\<open>idx = 1\<close>.\<close>

definition grok_year_doublets ::
  "(string \<Rightarrow> int option) \<Rightarrow> string list \<Rightarrow> int \<Rightarrow> error + (int \<times> nat)" where
  "grok_year_doublets w2n word_list year0 =
     (let (year1, idx2) =
            (case to_num w2n (cur_word word_list 1) of
               None \<Rightarrow> (year0, 1)
             | Some num \<Rightarrow> if year0 > 19 \<and> num < 10 then (year0 + num, 2) else (year0, 1));
          year2 = year1 * 100;
          (more_required, idx3) =
            (if cur_word word_list idx2 = Some ''hundred'' then (False, idx2 + 1)
             else (True, idx2));
          idx4 = (if cur_word word_list idx3 = Some ''and'' then idx3 + 1 else idx3)
      in case to_num w2n (cur_word word_list idx4) of
           Some num \<Rightarrow>
             (let idx5 = idx4 + 1 in
              if num = 0 \<or> (10 \<le> num \<and> num < 30) then
                (case to_num w2n (cur_word word_list idx5) of
                   None \<Rightarrow> Inr (year2 + num, idx5)
                 | Some num2 \<Rightarrow>
                     if num2 < 10 then Inr (year2 + num + num2, idx5 + 1)
                     else Inr (year2 + num, idx5))
              else Inr (year2 + num, idx5))
         | None \<Rightarrow>
             if more_required then Inl TimestampGrokError else Inr (year2, idx4))"

text \<open>
  \<^verbatim>\<open>grok_year(word_list)\<close>: the year and the word list after \<^verbatim>\<open>idx\<close> pops, or the
  \<^verbatim>\<open>TimestampGrokError\<close> it raises.
\<close>

definition grok_year ::
  "(string \<Rightarrow> int option) \<Rightarrow> string list \<Rightarrow> error + (int \<times> string list)" where
  "grok_year w2n word_list =
     (case to_num w2n (cur_word word_list 0) of
        None \<Rightarrow> Inl TimestampGrokError
      | Some year0 \<Rightarrow>
          (case (if 1 \<le> year0 \<and> year0 \<le> 3 then grok_year_thousand w2n word_list year0
                 else if 19 \<le> year0 \<and> year0 \<le> 29 then grok_year_doublets w2n word_list year0
                 else Inr (year0, 1)) of
             Inl e \<Rightarrow> Inl e
           | Inr (year1, idx) \<Rightarrow>
               if year1 < 1900 \<or> year1 > 2999 then Inl TimestampGrokError
               else Inr (year1, drop idx word_list)))"

text \<open>
  What the standard library's \<^verbatim>\<open>datetime.date(year, month, day)\<close> accepts: a year in
  1..9999, a month in 1..12 and a day of that month, in the proleptic Gregorian calendar.
\<close>

definition is_leap :: "int \<Rightarrow> bool" where
  "is_leap y \<longleftrightarrow> y mod 4 = 0 \<and> (y mod 100 \<noteq> 0 \<or> y mod 400 = 0)"

definition days_in_month :: "int \<Rightarrow> int \<Rightarrow> int" where
  "days_in_month y m =
     (if m = 2 then (if is_leap y then 29 else 28)
      else if m \<in> {4, 6, 9, 11} then 30 else 31)"

definition valid_date :: "int \<Rightarrow> int \<Rightarrow> int \<Rightarrow> bool" where
  "valid_date y m d \<longleftrightarrow>
     1 \<le> y \<and> y \<le> 9999 \<and> 1 \<le> m \<and> m \<le> 12 \<and> 1 \<le> d \<and> d \<le> days_in_month y m"

text \<open>
  \<^verbatim>\<open>grok_date_words(word_list)\<close>. The failed \<^verbatim>\<open>assert False\<close> is \<open>AssertionError\<close>. When a
  weekday was parsed the source builds \<^verbatim>\<open>datetime.date(year, month, day)\<close>, which raises
  \<^verbatim>\<open>ValueError\<close> on an impossible date; the comparison of the weekdays only prints a
  warning.
\<close>

definition grok_date_words ::
  "(string \<Rightarrow> int option) \<Rightarrow> string list
   \<Rightarrow> error + (int \<times> int \<times> int \<times> string option \<times> string list)" where
  "grok_date_words w2n word_list =
     (let (day_of_week0, wl1) =
            (if word_list \<noteq> [] \<and> days (hd word_list) \<noteq> None
             then (Some (hd word_list), tl word_list) else (None, word_list))
      in if wl1 \<noteq> [] \<and> months (hd wl1) \<noteq> None then
           (let month = int (the (months (hd wl1))) + 1;
                wl2 = tl wl1
            in case grok_day_of_month w2n wl2 of
                 Inl e \<Rightarrow> Inl e
               | Inr (day, wl3) \<Rightarrow>
                   (let (day_of_week1, wl4) =
                          (if wl3 \<noteq> [] \<and> days (hd wl3) \<noteq> None
                           then (Some (hd wl3), tl wl3) else (day_of_week0, wl3))
                    in case grok_year w2n wl4 of
                         Inl e \<Rightarrow> Inl e
                       | Inr (year, wl5) \<Rightarrow>
                           if day_of_week1 \<noteq> None \<and> \<not> valid_date year month day
                           then Inl ValueError
                           else Inr (year, month, day, day_of_week1, wl5)))
         else Inl AssertionError)"

text \<open>
  \<^verbatim>\<open>datetime.datetime(year, month, day, hour, minute, second)\<close>: the value, or the
  \<^verbatim>\<open>ValueError\<close> of a field out of range.
\<close>

record datetime =
  year :: int
  month :: int
  day :: int
  hour :: int
  minute :: int
  second :: int

definition mk_datetime :: "int \<Rightarrow> int \<Rightarrow> int \<Rightarrow> int \<Rightarrow> int \<Rightarrow> int \<Rightarrow> error + datetime" where
  "mk_datetime y m d hh mm ss =
     (if valid_date y m d \<and> 0 \<le> hh \<and> hh \<le> 23 \<and> 0 \<le> mm \<and> mm \<le> 59 \<and> 0 \<le> ss \<and> ss \<le> 59
      then Inr \<lparr>year = y, month = m, day = d, hour = hh, minute = mm, second = ss\<rparr>
      else Inl ValueError)"

text \<open>
  The \<^verbatim>\<open>for i, word in enumerate(words)\<close> loop of \<^verbatim>\<open>words_to_timestamp\<close>: the pair
  \<^verbatim>\<open>(words[:i], words[i:])\<close> at the first weekday or month name, \<open>None\<close> when the loop ends
  without \<^verbatim>\<open>break\<close>.
\<close>

fun split_at_date :: "string list \<Rightarrow> (string list \<times> string list) option" where
  "split_at_date [] = None"
| "split_at_date (word # words) =
     (if days word \<noteq> None \<or> months word \<noteq> None then Some ([], word # words)
      else map_option (\<lambda>(time_words, date_words). (word # time_words, date_words))
             (split_at_date words))"

text \<open>\<^verbatim>\<open>words_to_timestamp(text)\<close>; \<^verbatim>\<open>text\<close> is \<open>None\<close> for Python's \<^verbatim>\<open>None\<close>.\<close>

definition words_to_timestamp ::
  "(string \<Rightarrow> int option) \<Rightarrow> string option \<Rightarrow> error + (datetime \<times> string list)" where
  "words_to_timestamp w2n text =
     (case text of
        None \<Rightarrow> Inl TimestampGrokError
      | Some t \<Rightarrow>
          (case split_at_date (str_split t) of
             None \<Rightarrow> Inl TimestampGrokError
           | Some (time_words, date_words) \<Rightarrow>
               (let (hh, mm, ss, extra0) = grok_time_words w2n time_words
                in case grok_date_words w2n date_words of
                     Inl e \<Rightarrow> Inl e
                   | Inr (y, m, d, day_of_week, extra) \<Rightarrow>
                       (case mk_datetime y m d hh mm ss of
                          Inl e \<Rightarrow> Inl e
                        | Inr dt \<Rightarrow> Inr (dt, extra)))))"

text \<open>
  The single number words of the external package word2number that the examples use:
  its table \<^verbatim>\<open>american_number_system\<close> without \<^verbatim>\<open>point\<close>. Any other word has no number.
\<close>

definition number_words :: "(string \<times> int) list" where
  "number_words =
     [(''zero'', 0), (''one'', 1), (''two'', 2), (''three'', 3), (''four'', 4), (''five'', 5),
      (''six'', 6), (''seven'', 7), (''eight'', 8), (''nine'', 9), (''ten'', 10),
      (''eleven'', 11), (''twelve'', 12), (''thirteen'', 13), (''fourteen'', 14),
      (''fifteen'', 15), (''sixteen'', 16), (''seventeen'', 17), (''eighteen'', 18),
      (''nineteen'', 19), (''twenty'', 20), (''thirty'', 30), (''forty'', 40),
      (''fifty'', 50), (''sixty'', 60), (''seventy'', 70), (''eighty'', 80),
      (''ninety'', 90), (''hundred'', 100), (''thousand'', 1000), (''million'', 1000000),
      (''billion'', 1000000000)]"

definition word_to_num :: "string \<Rightarrow> int option" where
  "word_to_num w = map_of number_words w"

section \<open>Steppers\<close>

text \<open>
  A token is a Python value that may be \<^verbatim>\<open>None\<close>: \<open>Some i\<close> is the worklist index \<open>i\<close>,
  \<open>None\<close> is Python's \<^verbatim>\<open>None\<close>, the default end token.

  \<^verbatim>\<open>class StepperQueue(asyncio.Queue)\<close>: \<open>items\<close> is what the producer puts on the queue
  and the consumer has not read yet, oldest first; \<open>pending\<close> and \<open>q_done\<close> are the
  attributes \<^verbatim>\<open>pending\<close> and \<^verbatim>\<open>done\<close>. Every queue that is not done has one
  outstanding read (\<^verbatim>\<open>getter\<close>), which completes with the head of \<open>items\<close>.
\<close>

record 'a StepperQueue =
  items :: "'a option list"
  pending :: "'a option set"
  q_done :: bool

text \<open>
  \<^verbatim>\<open>class Stepper\<close>: the four queue lists, the end token, \<^verbatim>\<open>self.value\<close> and
  \<^verbatim>\<open>self.pre_sync_met\<close>.
\<close>

record 'a Stepper =
  sync_from :: "'a StepperQueue list"
  pull_from :: "'a StepperQueue list"
  send_to :: "'a StepperQueue list"
  sync_to :: "'a StepperQueue list"
  end_token :: "'a option"
  last_value :: "'a option"
  pre_sync_met :: bool

text \<open>
  The body of \<^verbatim>\<open>for task in done\<close> in \<^verbatim>\<open>_get_across\<close>, for the completed reads of the
  queues with the given positions in \<^verbatim>\<open>q_list\<close>, in the order the loop visits them. A
  position whose queue has no outstanding read, or nothing to read, has no completed
  read and is skipped.
\<close>

fun process_done ::
  "'a option \<Rightarrow> 'a StepperQueue list \<Rightarrow> nat list \<Rightarrow> error + 'a StepperQueue list" where
  "process_done end_tok qs [] = Inr qs"
| "process_done end_tok qs (i # completed) =
     (if i < length qs \<and> \<not> q_done (qs ! i) \<and> items (qs ! i) \<noteq> [] then
        (let q = qs ! i;
             token = hd (items q)
         in if token \<in> pending q then Inl DuplicateTokenError
            else process_done end_tok
                   (qs[i := q\<lparr>items := tl (items q),
                              pending := insert token (pending q),
                              q_done := (token = end_tok)\<rparr>])
                   completed)
      else process_done end_tok qs completed)"

text \<open>
  The first half of the \<^verbatim>\<open>while True\<close> body of \<^verbatim>\<open>_get_across\<close>: the tokens seen by all
  queues, the desynchronization check, and the delivery of one token. \<open>None\<close> means that
  no token is ready. The parameter \<open>pop\<close> is \<^verbatim>\<open>set.pop\<close>, which returns an arbitrary
  element of a non-empty set.
\<close>

definition ready_token ::
  "'a option \<Rightarrow> ('a option set \<Rightarrow> 'a option) \<Rightarrow> 'a StepperQueue list
   \<Rightarrow> (error + ('a option \<times> 'a StepperQueue list)) option" where
  "ready_token end_tok pop qs =
     (let tokens_done = \<Inter> (pending ` set qs) in
      if end_tok \<in> tokens_done \<and> (\<exists>q\<in>set qs. tokens_done \<noteq> pending q)
      then Some (Inl DesynchronizationError)
      else if tokens_done \<noteq> {} then
        (let token0 = pop tokens_done;
             rest = tokens_done - {token0};
             token = (if token0 = end_tok \<and> rest \<noteq> {} then pop rest else token0)
         in Some (Inr (token, map (\<lambda>q. q\<lparr>pending := pending q - {token}\<rparr>) qs)))
      else None)"

text \<open>
  The \<^verbatim>\<open>while True\<close> loop of \<^verbatim>\<open>_get_across\<close> for a non-empty \<^verbatim>\<open>q_list\<close>. The last
  argument is the schedule: for each \<^verbatim>\<open>asyncio.wait\<close> that returns, the positions of the
  queues whose reads completed. The result is \<open>None\<close> when the call never returns: the
  schedule is exhausted, so no read completes any more, or there is no read to wait for
  and the loop spins.
\<close>

fun get_across_loop ::
  "'a option \<Rightarrow> ('a option set \<Rightarrow> 'a option) \<Rightarrow> 'a StepperQueue list \<Rightarrow> nat list list
   \<Rightarrow> (error + ('a option \<times> 'a StepperQueue list \<times> nat list list)) option" where
  "get_across_loop end_tok pop qs [] =
     (case ready_token end_tok pop qs of
        Some (Inl e) \<Rightarrow> Some (Inl e)
      | Some (Inr (token, qs')) \<Rightarrow> Some (Inr (token, qs', []))
      | None \<Rightarrow> None)"
| "get_across_loop end_tok pop qs (completed # sched) =
     (case ready_token end_tok pop qs of
        Some (Inl e) \<Rightarrow> Some (Inl e)
      | Some (Inr (token, qs')) \<Rightarrow> Some (Inr (token, qs', completed # sched))
      | None \<Rightarrow>
          if \<exists>q\<in>set qs. \<not> q_done q then
            (case process_done end_tok qs (remdups completed) of
               Inl e \<Rightarrow> Some (Inl e)
             | Inr qs' \<Rightarrow> get_across_loop end_tok pop qs' sched)
          else None)"

text \<open>\<^verbatim>\<open>Stepper._get_across(q_list, qtype)\<close>: Python's \<^verbatim>\<open>None\<close> for an empty \<^verbatim>\<open>q_list\<close>.\<close>

definition get_across ::
  "'a option \<Rightarrow> ('a option set \<Rightarrow> 'a option) \<Rightarrow> 'a StepperQueue list \<Rightarrow> nat list list
   \<Rightarrow> (error + ('a option \<times> 'a StepperQueue list \<times> nat list list)) option" where
  "get_across end_tok pop q_list sched =
     (if q_list = [] then Some (Inr (None, q_list, sched))
      else get_across_loop end_tok pop q_list sched)"

text \<open>\<^verbatim>\<open>Stepper.pre_sync()\<close>.\<close>

definition pre_sync ::
  "('a option set \<Rightarrow> 'a option) \<Rightarrow> 'a Stepper \<Rightarrow> nat list list
   \<Rightarrow> (error + ('a Stepper \<times> nat list list)) option" where
  "pre_sync pop st sched =
     (if pre_sync_met st then Some (Inr (st, sched))
      else
        (case get_across (end_token st) pop (sync_from st) sched of
           None \<Rightarrow> None
         | Some (Inl e) \<Rightarrow> Some (Inl e)
         | Some (Inr (token, qs', sched')) \<Rightarrow>
             if token \<noteq> end_token st then Some (Inl PreSyncTokenError)
             else Some (Inr (st\<lparr>sync_from := qs', pre_sync_met := True\<rparr>, sched'))))"

text \<open>\<^verbatim>\<open>Stepper.get()\<close>: the token returned, the stepper and the rest of the schedule.\<close>

definition get ::
  "('a option set \<Rightarrow> 'a option) \<Rightarrow> 'a Stepper \<Rightarrow> nat list list
   \<Rightarrow> (error + ('a option \<times> 'a Stepper \<times> nat list list)) option" where
  "get pop st sched =
     (case pre_sync pop st sched of
        None \<Rightarrow> None
      | Some (Inl e) \<Rightarrow> Some (Inl e)
      | Some (Inr (st1, sched1)) \<Rightarrow>
          (case get_across (end_token st1) pop (pull_from st1) sched1 of
             None \<Rightarrow> None
           | Some (Inl e) \<Rightarrow> Some (Inl e)
           | Some (Inr (token, qs', sched2)) \<Rightarrow>
               Some (Inr (token, st1\<lparr>pull_from := qs', last_value := token\<rparr>, sched2))))"

text \<open>
  \<^verbatim>\<open>Stepper.put(token)\<close>: the token goes on every \<^verbatim>\<open>send_to\<close> queue, and the end token on
  every \<^verbatim>\<open>sync_to\<close> queue as well.
\<close>

definition put :: "'a Stepper \<Rightarrow> 'a option \<Rightarrow> 'a Stepper" where
  "put st token =
     st\<lparr>send_to := map (\<lambda>q. q\<lparr>items := items q @ [token]\<rparr>) (send_to st),
        sync_to := (if token = end_token st
                    then map (\<lambda>q. q\<lparr>items := items q @ [token]\<rparr>) (sync_to st)
                    else sync_to st)\<rparr>"

text \<open>
  \<^verbatim>\<open>Step.reorder(cmdargs, worklist, *, stepper)\<close>. The body of the coroutine is its
  docstring: it returns without a \<^verbatim>\<open>get\<close> or a \<^verbatim>\<open>put\<close>. It is not marked
  \<^verbatim>\<open>@StepNetwork.stepped\<close>, so \<^verbatim>\<open>StepNetwork.execute\<close> runs it as a task, without
  \<^verbatim>\<open>Stepper.walk\<close> around it.
\<close>

definition reorder :: "'c \<Rightarrow> 'w \<Rightarrow> 'a Stepper \<Rightarrow> 'a Stepper" where
  "reorder cmdargs worklist stepper = stepper"

text \<open>A queue as \<^verbatim>\<open>StepperQueue.__init__\<close> leaves it, holding the given tokens.\<close>

definition new_queue :: "'a option list \<Rightarrow> 'a StepperQueue" where
  "new_queue xs = \<lparr>items = xs, pending = {}, q_done = False\<rparr>"

definition new_stepper ::
  "'a StepperQueue list \<Rightarrow> 'a StepperQueue list \<Rightarrow> 'a StepperQueue list \<Rightarrow> 'a StepperQueue list
   \<Rightarrow> 'a option \<Rightarrow> 'a Stepper" where
  "new_stepper sf pf st sy e =
     \<lparr>sync_from = sf, pull_from = pf, send_to = st, sync_to = sy, end_token = e,
      last_value = e, pre_sync_met = False\<rparr>"


text \<open>
  The tokens that have been read from a queue, given the queue \<open>q0\<close> as it was before any
  read: what is missing from the front of its items.
\<close>

definition tokens_read :: "'a StepperQueue \<Rightarrow> 'a StepperQueue \<Rightarrow> 'a option list" where
  "tokens_read q0 q = take (length (items q0) - length (items q)) (items q0)"

text \<open>
  The state of a queue \<open>q\<close> agrees with its history: its items are what is left of the
  items of \<open>q0\<close>, and every pending token has been read from it.
\<close>

definition read_ok :: "'a StepperQueue \<Rightarrow> 'a StepperQueue \<Rightarrow> bool" where
  "read_ok q0 q \<longleftrightarrow>
     items q0 = tokens_read q0 q @ items q \<and> pending q \<subseteq> set (tokens_read q0 q)"

section \<open>The progress sidecar\<close>

text \<open>
  The Python values that an \<^verbatim>\<open>AudioInfo\<close> can hold and that the JSON hooks produce. A
  dataclass instance keeps its fields in declaration order; the fields are untyped at run
  time, so each can hold any value. A float is a real; a naive datetime is represented by
  the float that its \<^verbatim>\<open>timestamp()\<close> returns, and \<^verbatim>\<open>datetime.fromtimestamp\<close> of that float
  is taken to give the same datetime back. A dict is the list of its items in insertion
  order.
\<close>

datatype pyval =
    PNone
  | PBool bool
  | PFloat real
  | PStr string
  | PList "pyval list"
  | PDict "(string \<times> pyval) list"
  | PPath string
  | PDatetime real
  | PTimeRange pyval pyval
  | PAudioInfo pyval pyval pyval pyval pyval

text \<open>
  A JSON document. \<^verbatim>\<open>json.dumps\<close> writes the text of such a tree and \<^verbatim>\<open>json.loads\<close> reads
  the same tree back, so the text is not modelled.
\<close>

datatype json =
    JNull
  | JBool bool
  | JNumber real
  | JString string
  | JArray "json list"
  | JObject "(string \<times> json) list"

text \<open>
  \<^verbatim>\<open>dataclasses.asdict(obj)\<close> recurses into dataclass instances, lists and dicts: every
  dataclass instance below \<^verbatim>\<open>obj\<close> becomes a plain dict of its fields; other values are
  copied.
\<close>

fun asdict :: "pyval \<Rightarrow> pyval" where
  "asdict (PTimeRange s d) = PDict [(''start'', asdict s), (''duration'', asdict d)]"
| "asdict (PAudioInfo a b c d e) =
     PDict [(''duration_s'', asdict a), (''speech_range'', asdict b),
            (''recognized_speech'', asdict c), (''parsed_timestamp'', asdict d),
            (''extra_speech'', asdict e)]"
| "asdict (PList xs) = PList (map asdict xs)"
| "asdict (PDict kvs) = PDict (map (\<lambda>kv. (fst kv, asdict (snd kv))) kvs)"
| "asdict v = v"

text \<open>The class name that \<^verbatim>\<open>obj.__class__.__name__\<close> gives for a dataclass instance.\<close>

fun dataclass_name :: "pyval \<Rightarrow> string option" where
  "dataclass_name (PTimeRange s d) = Some ''TimeRange''"
| "dataclass_name (PAudioInfo a b c d e) = Some ''AudioInfo''"
| "dataclass_name v = None"

text \<open>
  \<^verbatim>\<open>TaketakeJsonEncoder.default(obj)\<close>, which the encoder calls on a value that is not of a
  JSON type: \<open>None\<close> stands for the \<^verbatim>\<open>TypeError\<close> of \<^verbatim>\<open>super().default(obj)\<close>.
\<close>

definition default_hook :: "pyval \<Rightarrow> pyval option" where
  "default_hook obj =
     (case dataclass_name obj of
        Some name \<Rightarrow>
          (case asdict obj of
             PDict d \<Rightarrow> Some (PDict (d @ [(''__dataclass__'', PStr name)]))
           | _ \<Rightarrow> None)
      | None \<Rightarrow>
          (case obj of
             PPath p \<Rightarrow> Some (PDict [(''__Path__'', PBool True), (''path'', PStr p)])
           | PDatetime ts \<Rightarrow>
               Some (PDict [(''__datetime__'', PBool True), (''timestamp'', PFloat ts)])
           | _ \<Rightarrow> None))"

text \<open>The weight that decreases along the encoder's recursion.\<close>

fun weight :: "pyval \<Rightarrow> nat" where
  "weight (PList xs) = 1 + sum_list (map weight xs)"
| "weight (PDict kvs) = 1 + sum_list (map (\<lambda>kv. weight (snd kv)) kvs)"
| "weight (PPath p) = 10"
| "weight (PDatetime ts) = 10"
| "weight (PTimeRange s d) = 10 + weight s + weight d"
| "weight (PAudioInfo a b c d e) = 10 + weight a + weight b + weight c + weight d + weight e"
| "weight v = 1"

text \<open>
  \<^verbatim>\<open>json.dumps(obj, cls=TaketakeJsonEncoder)\<close>: values of the JSON types are written as they
  are, any other value is replaced by what \<^verbatim>\<open>default\<close> returns for it, and the
  \<^verbatim>\<open>TypeError\<close> of \<^verbatim>\<open>default\<close> ends the call.
\<close>

function dumps :: "pyval \<Rightarrow> error + json" where
  "dumps PNone = Inr JNull"
| "dumps (PBool b) = Inr (JBool b)"
| "dumps (PFloat x) = Inr (JNumber x)"
| "dumps (PStr s) = Inr (JString s)"
| "dumps (PList xs) =
     (if \<exists>x\<in>set xs. isl (dumps x) then Inl TypeError
      else Inr (JArray (map (\<lambda>x. projr (dumps x)) xs)))"
| "dumps (PDict kvs) =
     (if \<exists>kv\<in>set kvs. isl (dumps (snd kv)) then Inl TypeError
      else Inr (JObject (map (\<lambda>kv. (fst kv, projr (dumps (snd kv)))) kvs)))"
| "dumps (PPath p) =
     (case default_hook (PPath p) of None \<Rightarrow> Inl TypeError | Some d \<Rightarrow> dumps d)"
| "dumps (PDatetime ts) =
     (case default_hook (PDatetime ts) of None \<Rightarrow> Inl TypeError | Some d \<Rightarrow> dumps d)"
| "dumps (PTimeRange s t) =
     (case default_hook (PTimeRange s t) of None \<Rightarrow> Inl TypeError | Some d \<Rightarrow> dumps d)"
| "dumps (PAudioInfo a b c d e) =
     (case default_hook (PAudioInfo a b c d e) of None \<Rightarrow> Inl TypeError | Some d \<Rightarrow> dumps d)"
  by pat_completeness auto
termination
proof -
  have weight_asdict: "weight (asdict v) \<le> weight v" for v
  proof (induction v rule: asdict.induct)
    case (3 xs)
    have "sum_list (map weight (map asdict xs)) \<le> sum_list (map weight xs)"
      unfolding map_map using 3 by (intro sum_list_mono) simp
    then show ?case by simp
  next
    case (4 kvs)
    have "sum_list (map (\<lambda>kv. weight (snd kv)) (map (\<lambda>kv. (fst kv, asdict (snd kv))) kvs))
          \<le> sum_list (map (\<lambda>kv. weight (snd kv)) kvs)"
      unfolding map_map using 4 by (intro sum_list_mono) simp
    then show ?case by simp
  qed simp_all
  have weight_default_hook: "weight d < weight obj" if "default_hook obj = Some d" for obj d
  proof (cases obj)
    case (PTimeRange s t)
    then have "d = PDict [(''start'', asdict s), (''duration'', asdict t),
                          (''__dataclass__'', PStr ''TimeRange'')]"
      using that by (simp add: default_hook_def)
    then show ?thesis using weight_asdict [of s] weight_asdict [of t] by (simp add: PTimeRange)
  next
    case (PAudioInfo a b c e f)
    then have "d = PDict [(''duration_s'', asdict a), (''speech_range'', asdict b),
              (''recognized_speech'', asdict c), (''parsed_timestamp'', asdict e),
              (''extra_speech'', asdict f), (''__dataclass__'', PStr ''AudioInfo'')]"
      using that by (simp add: default_hook_def)
    then show ?thesis
      using weight_asdict [of a] weight_asdict [of b] weight_asdict [of c] weight_asdict [of e]
        weight_asdict [of f]
      by (simp add: PAudioInfo)
  qed (use that in \<open>auto simp: default_hook_def\<close>)
  have weight_member: "weight x < Suc (sum_list (map weight xs))" if "x \<in> set xs" for x xs
    using that by (induction xs) auto
  have weight_item: "weight (snd kv) < Suc (sum_list (map (\<lambda>kv. weight (snd kv)) kvs))"
    if "kv \<in> set kvs" for kv kvs
    using that by (induction kvs) auto
  show ?thesis
    by (relation "measure weight")
       (auto simp: weight_member weight_item dest: weight_default_hook)
qed


text \<open>
  The dataclasses that \<^verbatim>\<open>globals()[classname]\<close> can find, of those the model covers;
  a name that is not a global of the module is a \<^verbatim>\<open>KeyError\<close>.
\<close>

datatype pyclass = TimeRangeClass | AudioInfoClass

definition module_globals :: "string \<Rightarrow> pyclass option" where
  "module_globals name =
     (if name = ''TimeRange'' then Some TimeRangeClass
      else if name = ''AudioInfo'' then Some AudioInfoClass
      else None)"

text \<open>
  \<^verbatim>\<open>cls(**d)\<close> for the two dataclasses: an unexpected keyword and a missing field without
  default are \<^verbatim>\<open>TypeError\<close>; the fields of \<^verbatim>\<open>AudioInfo\<close> default to \<^verbatim>\<open>None\<close> and
  \<^verbatim>\<open>extra_speech\<close> to the empty list.
\<close>

definition construct :: "pyclass \<Rightarrow> (string \<times> pyval) list \<Rightarrow> error + pyval" where
  "construct cls d =
     (case cls of
        TimeRangeClass \<Rightarrow>
          (if (\<forall>k\<in>set (map fst d). k \<in> {''start'', ''duration''})
              \<and> map_of d ''start'' \<noteq> None \<and> map_of d ''duration'' \<noteq> None
           then Inr (PTimeRange (the (map_of d ''start'')) (the (map_of d ''duration'')))
           else Inl TypeError)
      | AudioInfoClass \<Rightarrow>
          (if \<forall>k\<in>set (map fst d). k \<in> {''duration_s'', ''speech_range'', ''recognized_speech'',
                                        ''parsed_timestamp'', ''extra_speech''}
           then Inr (PAudioInfo
                  (case map_of d ''duration_s'' of Some v \<Rightarrow> v | None \<Rightarrow> PNone)
                  (case map_of d ''speech_range'' of Some v \<Rightarrow> v | None \<Rightarrow> PNone)
                  (case map_of d ''recognized_speech'' of Some v \<Rightarrow> v | None \<Rightarrow> PNone)
                  (case map_of d ''parsed_timestamp'' of Some v \<Rightarrow> v | None \<Rightarrow> PNone)
                  (case map_of d ''extra_speech'' of Some v \<Rightarrow> v | None \<Rightarrow> PList []))
           else Inl TypeError))"

text \<open>
  \<^verbatim>\<open>taketake_json_decode(d)\<close>, the \<^verbatim>\<open>object_hook\<close>: \<^verbatim>\<open>d.pop("__dataclass__", None)\<close> removes
  the tag; a list or dict as class name is unhashable (\<^verbatim>\<open>TypeError\<close>), any other
  non-string is not a key of \<^verbatim>\<open>globals()\<close>.
\<close>

definition taketake_json_decode :: "(string \<times> pyval) list \<Rightarrow> error + pyval" where
  "taketake_json_decode d0 =
     (let classname = (case map_of d0 ''__dataclass__'' of Some v \<Rightarrow> v | None \<Rightarrow> PNone);
          d = filter (\<lambda>kv. fst kv \<noteq> ''__dataclass__'') d0
      in if classname \<noteq> PNone then
           (case classname of
              PStr name \<Rightarrow>
                (case module_globals name of
                   None \<Rightarrow> Inl KeyError
                 | Some cls \<Rightarrow> construct cls d)
            | PList xs \<Rightarrow> Inl TypeError
            | PDict kvs \<Rightarrow> Inl TypeError
            | _ \<Rightarrow> Inl KeyError)
         else if map_of d ''__Path__'' \<noteq> None then
           (case map_of d ''path'' of
              None \<Rightarrow> Inl KeyError
            | Some (PStr p) \<Rightarrow> Inr (PPath p)
            | Some _ \<Rightarrow> Inl TypeError)
         else if map_of d ''__datetime__'' \<noteq> None then
           (case map_of d ''timestamp'' of
              None \<Rightarrow> Inl KeyError
            | Some (PFloat ts) \<Rightarrow> Inr (PDatetime ts)
            | Some _ \<Rightarrow> Inl TypeError)
         else Inr (PDict d))"

text \<open>The values of a list of results, or its first error.\<close>

fun collect :: "(error + 'a) list \<Rightarrow> error + 'a list" where
  "collect [] = Inr []"
| "collect (Inl e # rs) = Inl e"
| "collect (Inr v # rs) = (case collect rs of Inl e \<Rightarrow> Inl e | Inr vs \<Rightarrow> Inr (v # vs))"

text \<open>
  \<^verbatim>\<open>json.loads(text, object_hook=taketake_json_decode)\<close>: the hook is applied to every
  object, innermost first, and its result replaces the object.
\<close>

fun loads :: "json \<Rightarrow> error + pyval" where
  "loads JNull = Inr PNone"
| "loads (JBool b) = Inr (PBool b)"
| "loads (JNumber x) = Inr (PFloat x)"
| "loads (JString s) = Inr (PStr s)"
| "loads (JArray xs) =
     (case collect (map loads xs) of Inl e \<Rightarrow> Inl e | Inr vs \<Rightarrow> Inr (PList vs))"
| "loads (JObject kvs) =
     (case collect (map (\<lambda>kv. case loads (snd kv) of
                                 Inl e \<Rightarrow> Inl e
                               | Inr v \<Rightarrow> Inr (fst kv, v)) kvs) of
        Inl e \<Rightarrow> Inl e
      | Inr d \<Rightarrow> taketake_json_decode d)"

text \<open>
  \<^verbatim>\<open>write_json(fpath, obj)\<close> gives the file its content and \<^verbatim>\<open>read_json(fpath)\<close> decodes that
  content.
\<close>

definition write_json :: "pyval \<Rightarrow> error + json" where
  "write_json obj = dumps obj"

definition read_json :: "json \<Rightarrow> error + pyval" where
  "read_json content = loads content"

section \<open>The byte-delta verifier\<close>






definition header_line :: string where
  "header_line = ''Offset Code Type1 Size1 @Addr1 + Type2 Size2 @Addr2''"


text \<open>\<^verbatim>\<open>key, value = line.split(":", maxsplit=1)\<close> and \<^verbatim>\<open>value = value.strip()\<close>.\<close>

definition field_key :: "string \<Rightarrow> string" where
  "field_key line = takeWhile (\<lambda>c. c \<noteq> CHR '':'') line"

definition field_value :: "string \<Rightarrow> string" where
  "field_value line = strip (tl (dropWhile (\<lambda>c. c \<noteq> CHR '':'') line))"




text \<open>
  The shape of an accepted dump, stated on its lines. The header section is the longest
  prefix of lines that are non-empty after stripping and contain a colon.
\<close>

definition is_header_line :: "string \<Rightarrow> bool" where
  "is_header_line l \<longleftrightarrow> strip l \<noteq> [] \<and> CHR '':'' \<in> set (strip l)"

definition header_values :: "string \<Rightarrow> string list \<Rightarrow> string list" where
  "header_values key hdrs = map field_value (filter (\<lambda>h. field_key h = key) hdrs)"







section \<open>Theorems\<close>

subsection \<open>PAR2 block sizing\<close>









subsection \<open>The speech span\<close>








subsection \<open>Spoken timestamps\<close>

lemma str_split_monday: "str_split ''monday'' = [''monday'']"
  by (simp add: str_split_def is_space_def)

lemma days_monday: "days ''monday'' = Some 1"
  by (simp add: days_def reverse_hashify_def str_split_def is_space_def)

lemma pop_words_Nil: "pop_words [] ws = ([], [])"
  by (induction ws) simp_all

lemma pop_optional_words_Nil: "pop_optional_words [] s = (False, [])"
  by (simp add: pop_optional_words_def pop_words_Nil)

lemma grok_digit_pair_Nil: "grok_digit_pair w2n [] = (0, [])"
  by (simp add: grok_digit_pair_def)

lemma grok_time_words_Nil: "grok_time_words w2n [] = (0, 0, 0, [])"
  by (simp add: grok_time_words_def grok_digit_pair_Nil pop_optional_words_Nil)

text \<open>
  Claim C8 says that every transcript without a month name makes \<^verbatim>\<open>words_to_timestamp\<close>
  raise \<open>TimestampGrokError\<close>, also when it contains a weekday name. On the transcript
  \<^verbatim>\<open>"monday"\<close> the scan of \<^verbatim>\<open>words_to_timestamp\<close> stops at the weekday, and
  \<^verbatim>\<open>grok_date_words\<close> then fails its \<^verbatim>\<open>assert False, "Should have found a month name"\<close>:
  the exception is \<open>AssertionError\<close>, whatever the number-word library returns.
\<close>

theorem words_to_timestamp_weekday_only:
  "words_to_timestamp w2n (Some ''monday'') = Inl AssertionError"
  by (simp add: words_to_timestamp_def str_split_monday days_monday grok_time_words_Nil
      grok_date_words_def)

lemma split_at_date_None:
  "(\<forall>w\<in>set ws. days w = None \<and> months w = None) \<Longrightarrow> split_at_date ws = None"
  by (induction ws) simp_all

text \<open>
  The two halves of the behaviour on transcripts without a month name: with no weekday
  name either, the scan finds nothing and the error is \<open>TimestampGrokError\<close>; with a
  weekday name, the assertion of \<^verbatim>\<open>grok_date_words\<close> fails.
\<close>

lemma words_to_timestamp_no_date_word:
  "\<forall>w\<in>set (str_split t). days w = None \<and> months w = None \<Longrightarrow>
   words_to_timestamp w2n (Some t) = Inl TimestampGrokError"
  by (simp add: words_to_timestamp_def split_at_date_None)

lemma split_at_date_Some:
  "split_at_date ws = Some (tw, dw) \<Longrightarrow>
   ws = tw @ dw \<and> dw \<noteq> [] \<and> (days (hd dw) \<noteq> None \<or> months (hd dw) \<noteq> None)"
  by (induction ws arbitrary: tw) (auto split: if_splits)

lemma split_at_date_exists:
  "\<exists>w\<in>set ws. days w \<noteq> None \<or> months w \<noteq> None \<Longrightarrow> \<exists>tw dw. split_at_date ws = Some (tw, dw)"
  by (induction ws) auto

lemma words_to_timestamp_weekday_without_month:
  assumes nomonth: "\<forall>w\<in>set (str_split t). months w = None"
    and day: "\<exists>w\<in>set (str_split t). days w \<noteq> None"
  shows "words_to_timestamp w2n (Some t) = Inl AssertionError"
proof -
  obtain tw dw where sp: "split_at_date (str_split t) = Some (tw, dw)"
    using split_at_date_exists [of "str_split t"] day by blast
  from split_at_date_Some [OF sp] have dw: "str_split t = tw @ dw" "dw \<noteq> []"
    "days (hd dw) \<noteq> None \<or> months (hd dw) \<noteq> None" by simp_all
  have nm: "\<forall>w\<in>set dw. months w = None" using nomonth dw(1) by simp
  then have hdm: "months (hd dw) = None" using dw(2) by simp
  then have hdd: "days (hd dw) \<noteq> None" using dw(3) by simp
  have tlm: "tl dw \<noteq> [] \<Longrightarrow> months (hd (tl dw)) = None"
    using nm dw(2) by (cases dw) auto
  have "grok_date_words w2n dw = Inl AssertionError"
    using dw(2) hdd tlm by (auto simp: grok_date_words_def)
  then show ?thesis
    by (simp add: words_to_timestamp_def sp split: prod.splits)
qed

text \<open>
  Claim C10: when the first word of the transcript is a weekday or month name, the time
  section is empty and a successful \<^verbatim>\<open>words_to_timestamp\<close> returns a datetime with hour,
  minute and second 0; \<^verbatim>\<open>grok_digit_pair\<close> returns 0 and leaves the word list unchanged
  whenever the list is empty or its first word is not a number word.
\<close>

theorem words_to_timestamp_empty_time:
  "(\<forall>w ws dt extra.
      str_split t = w # ws \<and> (days w \<noteq> None \<or> months w \<noteq> None)
      \<and> words_to_timestamp w2n (Some t) = Inr (dt, extra)
      \<longrightarrow> hour dt = 0 \<and> minute dt = 0 \<and> second dt = 0)
   \<and> (word_list = [] \<or> to_num w2n (Some (hd word_list)) = None
      \<longrightarrow> grok_digit_pair w2n word_list = (0, word_list))"
proof -
  have a: "hour dt = 0 \<and> minute dt = 0 \<and> second dt = 0"
    if "str_split t = w # ws" "days w \<noteq> None \<or> months w \<noteq> None"
      "words_to_timestamp w2n (Some t) = Inr (dt, extra)" for w ws dt extra
  proof -
    have "split_at_date (str_split t) = Some ([], w # ws)" using that(1,2) by auto
    then show ?thesis using that(3)
      by (auto simp: words_to_timestamp_def grok_time_words_Nil mk_datetime_def
          split: sum.splits if_splits prod.splits)
  qed
  have b: "grok_digit_pair w2n word_list = (0, word_list)"
    if "word_list = [] \<or> to_num w2n (Some (hd word_list)) = None"
    using that by (auto simp: grok_digit_pair_def)
  show ?thesis using a b by blast
qed

lemma opt_words_split:
  "str_split ''second seconds'' = [''second'', ''seconds'']"
  "str_split ''minute minutes'' = [''minute'', ''minutes'']"
  "str_split ''and'' = [''and'']"
  "str_split ''hundred hour hours oh clock oclock o'clock and''
     = [''hundred'', ''hour'', ''hours'', ''oh'', ''clock'', ''oclock'', ''o'clock'', ''and'']"
  "str_split ''oh clock oclock o'clock minute minutes and''
     = [''oh'', ''clock'', ''oclock'', ''o'clock'', ''minute'', ''minutes'', ''and'']"
  by code_simp+

lemma corrections_simps:
  "corrections w = (if w = ''oh'' then Some ''zero'' else if w = ''why'' then Some ''one'' else None)"
  by (simp add: corrections_def)

lemma S1_split:
  "str_split ''nineteen thirty eight wednesday may nineteenth two thousand and twenty one''
   = [''nineteen'', ''thirty'', ''eight'', ''wednesday'', ''may'', ''nineteenth'', ''two'',
      ''thousand'', ''and'', ''twenty'', ''one'']"
  by code_simp

lemma S1_split_at_date:
  "split_at_date [''nineteen'', ''thirty'', ''eight'', ''wednesday'', ''may'', ''nineteenth'',
      ''two'', ''thousand'', ''and'', ''twenty'', ''one'']
   = Some ([''nineteen'', ''thirty'', ''eight''],
           [''wednesday'', ''may'', ''nineteenth'', ''two'', ''thousand'', ''and'', ''twenty'',
            ''one''])"
  by code_simp

lemma S1_time:
  assumes "w2n ''nineteen'' = Some 19" "w2n ''thirty'' = Some 30" "w2n ''eight'' = Some 8"
  shows "grok_time_words w2n [''nineteen'', ''thirty'', ''eight''] = (19, 38, 0, [])"
  using assms
  by (simp add: grok_time_words_def grok_digit_pair_def to_num_def corrections_simps
      pop_optional_words_def opt_words_split)

lemma S1_lookups:
  "days ''wednesday'' = Some 3" "months ''wednesday'' = None"
  "days ''may'' = None" "months ''may'' = Some 4"
  "ordinals ''nineteenth'' = Some 19" "days ''two'' = None"
  by code_simp+

lemma S1_day:
  assumes "w2n ''nineteenth'' = None"
  shows "grok_day_of_month w2n [''nineteenth'', ''two'', ''thousand'', ''and'', ''twenty'', ''one'']
         = Inr (19, [''two'', ''thousand'', ''and'', ''twenty'', ''one''])"
  using assms
  by (simp add: grok_day_of_month_def to_num_def corrections_simps S1_lookups)

lemma S1_year:
  assumes "w2n ''two'' = Some 2" "w2n ''twenty'' = Some 20" "w2n ''one'' = Some 1"
  shows "grok_year w2n [''two'', ''thousand'', ''and'', ''twenty'', ''one''] = Inr (2021, [])"
  using assms
  by (simp add: grok_year_def grok_year_thousand_def cur_word_def to_num_def corrections_simps)

lemma valid_date_S1: "valid_date 2021 5 19"
  by (simp add: valid_date_def days_in_month_def)

lemma S1_date:
  assumes "w2n ''nineteenth'' = None"
    "w2n ''two'' = Some 2" "w2n ''twenty'' = Some 20" "w2n ''one'' = Some 1"
  shows "grok_date_words w2n [''wednesday'', ''may'', ''nineteenth'', ''two'', ''thousand'',
           ''and'', ''twenty'', ''one'']
         = Inr (2021, 5, 19, Some ''wednesday'', [])"
  by (simp add: grok_date_words_def S1_lookups S1_day [of w2n, OF assms(1)]
      S1_year [of w2n, OF assms(2,3,4)] valid_date_S1)

text \<open>
  Claim C4: on the transcript
  \<^verbatim>\<open>"nineteen thirty eight wednesday may nineteenth two thousand and twenty one"\<close>,
  \<^verbatim>\<open>words_to_timestamp\<close> returns the datetime 2021-05-19 19:38:00 and an empty list of
  extra words. The number-word library is a parameter; the hypotheses are the values it
  gives to the seven words that \<^verbatim>\<open>to_num\<close> is asked about.
\<close>

theorem words_to_timestamp_spoken_S1:
  assumes "w2n ''nineteen'' = Some 19" "w2n ''thirty'' = Some 30" "w2n ''eight'' = Some 8"
    "w2n ''nineteenth'' = None"
    "w2n ''two'' = Some 2" "w2n ''twenty'' = Some 20" "w2n ''one'' = Some 1"
  shows "words_to_timestamp w2n
           (Some ''nineteen thirty eight wednesday may nineteenth two thousand and twenty one'')
         = Inr (\<lparr>year = 2021, month = 5, day = 19, hour = 19, minute = 38, second = 0\<rparr>, [])"
  by (simp add: words_to_timestamp_def S1_split S1_split_at_date
      S1_time [of w2n, OF assms(1,2,3)] S1_date [of w2n, OF assms(4,5,6,7)]
      mk_datetime_def valid_date_S1 del: split_at_date.simps)

theorem words_to_timestamp_spoken_S1_witness:
  "word_to_num ''nineteen'' = Some 19 \<and> word_to_num ''thirty'' = Some 30
   \<and> word_to_num ''eight'' = Some 8 \<and> word_to_num ''nineteenth'' = None
   \<and> word_to_num ''two'' = Some 2 \<and> word_to_num ''twenty'' = Some 20
   \<and> word_to_num ''one'' = Some 1
   \<and> words_to_timestamp word_to_num
           (Some ''nineteen thirty eight wednesday may nineteenth two thousand and twenty one'')
         = Inr (\<lparr>year = 2021, month = 5, day = 19, hour = 19, minute = 38, second = 0\<rparr>, [])"
proof -
  have h: "word_to_num ''nineteen'' = Some 19" "word_to_num ''thirty'' = Some 30"
    "word_to_num ''eight'' = Some 8" "word_to_num ''nineteenth'' = None"
    "word_to_num ''two'' = Some 2" "word_to_num ''twenty'' = Some 20"
    "word_to_num ''one'' = Some 1"
    by code_simp+
  show ?thesis using h words_to_timestamp_spoken_S1 [of word_to_num, OF h] by simp
qed

lemma date_only_split:
  "str_split ''may nineteenth two thousand and twenty one''
   = [''may'', ''nineteenth'', ''two'', ''thousand'', ''and'', ''twenty'', ''one'']"
  by code_simp

lemma date_only_example:
  "words_to_timestamp word_to_num (Some ''may nineteenth two thousand and twenty one'')
         = Inr (\<lparr>year = 2021, month = 5, day = 19, hour = 0, minute = 0, second = 0\<rparr>, [])"
proof -
  have h: "word_to_num ''nineteenth'' = None"
    "word_to_num ''two'' = Some 2" "word_to_num ''twenty'' = Some 20"
    "word_to_num ''one'' = Some 1"
    by code_simp+
  have d: "grok_date_words word_to_num [''may'', ''nineteenth'', ''two'', ''thousand'',
           ''and'', ''twenty'', ''one'']
         = Inr (2021, 5, 19, None, [])"
    by (simp add: grok_date_words_def S1_lookups S1_day [of word_to_num, OF h(1)]
        S1_year [of word_to_num, OF h(2,3,4)])
  show ?thesis
    by (simp add: words_to_timestamp_def date_only_split S1_lookups grok_time_words_Nil d
        mk_datetime_def valid_date_S1)
qed

theorem words_to_timestamp_empty_time_witness:
  "str_split ''may nineteenth two thousand and twenty one''
     = ''may'' # [''nineteenth'', ''two'', ''thousand'', ''and'', ''twenty'', ''one'']
   \<and> months ''may'' \<noteq> None
   \<and> words_to_timestamp word_to_num (Some ''may nineteenth two thousand and twenty one'')
       = Inr (\<lparr>year = 2021, month = 5, day = 19, hour = 0, minute = 0, second = 0\<rparr>, [])
   \<and> to_num word_to_num (Some (hd [''may''])) = None
   \<and> grok_digit_pair word_to_num [''may''] = (0, [''may''])"
proof -
  have m: "months ''may'' \<noteq> None" by (simp add: S1_lookups)
  have n: "to_num word_to_num (Some (hd [''may''])) = None"
    by code_simp
  show ?thesis
    using words_to_timestamp_empty_time [of "''may nineteenth two thousand and twenty one''" word_to_num "[''may'']"]
      date_only_split date_only_example m n by simp
qed

subsection \<open>Steppers\<close>

lemma read_ok_iff:
  "read_ok q0 q \<longleftrightarrow> (\<exists>pre. items q0 = pre @ items q \<and> pending q \<subseteq> set pre)"
proof
  assume "read_ok q0 q"
  then show "\<exists>pre. items q0 = pre @ items q \<and> pending q \<subseteq> set pre"
    unfolding read_ok_def by blast
next
  assume "\<exists>pre. items q0 = pre @ items q \<and> pending q \<subseteq> set pre"
  then obtain pre where pre: "items q0 = pre @ items q" "pending q \<subseteq> set pre" by blast
  have "tokens_read q0 q = pre" by (simp add: tokens_read_def pre(1))
  then show "read_ok q0 q" using pre by (simp add: read_ok_def)
qed

lemma tokens_read_eq:
  "items q0 = pre @ items q \<Longrightarrow> tokens_read q0 q = pre"
  by (simp add: tokens_read_def)

lemma read_ok_new_queue: "read_ok (new_queue xs) (new_queue xs)"
  by (simp add: read_ok_def tokens_read_def new_queue_def)

lemma read_ok_finite: "read_ok q0 q \<Longrightarrow> finite (pending q)"
  unfolding read_ok_def by (meson List.finite_set finite_subset)

lemma read_ok_read:
  assumes "read_ok q0 q" and "items q \<noteq> []"
  shows "read_ok q0 (q\<lparr>items := tl (items q), pending := insert (hd (items q)) (pending q),
                        q_done := b\<rparr>)"
proof -
  from assms(1) obtain pre where pre: "items q0 = pre @ items q" "pending q \<subseteq> set pre"
    unfolding read_ok_iff by blast
  from assms(2) have "items q = hd (items q) # tl (items q)" by simp
  then have "items q0 = (pre @ [hd (items q)]) @ tl (items q)" using pre(1) by simp
  moreover have "insert (hd (items q)) (pending q) \<subseteq> set (pre @ [hd (items q)])"
    using pre(2) by auto
  ultimately show ?thesis unfolding read_ok_iff by (intro exI [of _ "pre @ [hd (items q)]"]) simp
qed

lemma read_ok_remove:
  assumes "read_ok q0 q"
  shows "read_ok q0 (q\<lparr>pending := pending q - {t}\<rparr>)"
  using assms unfolding read_ok_iff by auto

lemma tokens_read_remove [simp]:
  "tokens_read q0 (q\<lparr>pending := P\<rparr>) = tokens_read q0 q"
  by (simp add: tokens_read_def)

lemma process_done_read_ok:
  assumes "list_all2 read_ok qs0 qs" and "process_done end_tok qs completed = Inr qs'"
  shows "list_all2 read_ok qs0 qs'"
  using assms
proof (induction completed arbitrary: qs)
  case Nil
  then show ?case by simp
next
  case (Cons i completed)
  show ?case
  proof (cases "i < length qs \<and> \<not> q_done (qs ! i) \<and> items (qs ! i) \<noteq> []")
    case False
    then have "process_done end_tok qs completed = Inr qs'" using Cons.prems(2) by auto
    then show ?thesis using Cons.IH Cons.prems(1) by blast
  next
    case True
    define q where "q = qs ! i"
    define q1 where "q1 = q\<lparr>items := tl (items q), pending := insert (hd (items q)) (pending q),
                            q_done := (hd (items q) = end_tok)\<rparr>"
    have nd: "hd (items q) \<notin> pending q"
      using Cons.prems(2) True by (auto simp: q_def Let_def split: if_splits)
    have step: "process_done end_tok (qs[i := q1]) completed = Inr qs'"
      using Cons.prems(2) True nd by (simp add: q_def q1_def Let_def)
    have len: "length qs0 = length qs" using Cons.prems(1) by (rule list_all2_lengthD)
    have "i < length qs" using True by simp
    from list_all2_nthD2 [OF Cons.prems(1) this] have "read_ok (qs0 ! i) q"
      unfolding q_def .
    then have "read_ok (qs0 ! i) q1"
      unfolding q1_def using True by (intro read_ok_read) (simp_all add: q_def)
    then have "list_all2 read_ok (qs0[i := qs0 ! i]) (qs[i := q1])"
      using Cons.prems(1) by (intro list_all2_update_cong) simp_all
    then have "list_all2 read_ok qs0 (qs[i := q1])" by simp
    from Cons.IH [OF this step] show ?thesis .
  qed
qed

lemma ready_token_member:
  assumes pop: "\<And>S. finite S \<Longrightarrow> S \<noteq> {} \<Longrightarrow> pop S \<in> S"
    and fin: "\<forall>q\<in>set qs. finite (pending q)"
    and ne: "qs \<noteq> []"
    and r: "ready_token end_tok pop qs = Some (Inr (t, qs'))"
  shows "(\<forall>q\<in>set qs. t \<in> pending q) \<and> qs' = map (\<lambda>q. q\<lparr>pending := pending q - {t}\<rparr>) qs"
proof -
  define D where "D = \<Inter> (pending ` set qs)"
  have "D \<subseteq> pending (hd qs)" using ne unfolding D_def by (cases qs) auto
  then have finD: "finite D" using fin ne by (meson finite_subset hd_in_set)
  define t0 where "t0 = pop D"
  define t1 where "t1 = (if t0 = end_tok \<and> D - {t0} \<noteq> {} then pop (D - {t0}) else t0)"
  have rt: "ready_token end_tok pop qs =
     (if end_tok \<in> D \<and> (\<exists>q\<in>set qs. D \<noteq> pending q) then Some (Inl DesynchronizationError)
      else if D \<noteq> {} then Some (Inr (t1, map (\<lambda>q. q\<lparr>pending := pending q - {t1}\<rparr>) qs))
      else None)"
    by (simp only: ready_token_def Let_def D_def t0_def t1_def)
  have Dne: "D \<noteq> {}"
  proof
    assume "D = {}"
    then have "ready_token end_tok pop qs = None" unfolding rt by simp
    then show False using r by simp
  qed
  have t0: "t0 \<in> D" unfolding t0_def using finD Dne by (rule pop)
  have t1: "t1 \<in> D"
  proof (cases "t0 = end_tok \<and> D - {t0} \<noteq> {}")
    case True
    have f: "finite (D - {t0})" using finD by simp
    have n: "D - {t0} \<noteq> {}" using True by (rule conjunct2)
    have "t1 = pop (D - {t0})" unfolding t1_def using True by (rule if_P)
    then show ?thesis using pop [OF f n] by simp
  next
    case False
    then have "t1 = t0" unfolding t1_def by (rule if_not_P)
    then show ?thesis using t0 by simp
  qed
  have "Some (Inr (t1, map (\<lambda>q. q\<lparr>pending := pending q - {t1}\<rparr>) qs)) = Some (Inr (t, qs'))"
  proof (cases "end_tok \<in> D \<and> (\<exists>q\<in>set qs. D \<noteq> pending q)")
    case True
    then have "ready_token end_tok pop qs = Some (Inl DesynchronizationError)"
      unfolding rt by (rule if_P)
    then show ?thesis using r by simp
  next
    case False
    then have "ready_token end_tok pop qs
               = (if D \<noteq> {}
                  then Some (Inr (t1, map (\<lambda>q. q\<lparr>pending := pending q - {t1}\<rparr>) qs))
                  else None)"
      unfolding rt by (rule if_not_P)
    also have "\<dots> = Some (Inr (t1, map (\<lambda>q. q\<lparr>pending := pending q - {t1}\<rparr>) qs))"
      using Dne by (rule if_P)
    finally have "ready_token end_tok pop qs
               = Some (Inr (t1, map (\<lambda>q. q\<lparr>pending := pending q - {t1}\<rparr>) qs))" .
    then show ?thesis using r by simp
  qed
  then have res: "t = t1 \<and> qs' = map (\<lambda>q. q\<lparr>pending := pending q - {t1}\<rparr>) qs"
    by (simp only: option.inject sum.inject prod.inject) blast
  then show ?thesis using t1 unfolding D_def by auto
qed

lemma get_across_loop_ready:
  assumes "list_all2 read_ok qs0 qs"
    and "get_across_loop end_tok pop qs sched = Some (Inr (t, qs', sched'))"
  shows "\<exists>mid. list_all2 read_ok qs0 mid \<and> ready_token end_tok pop mid = Some (Inr (t, qs'))"
  using assms
proof (induction sched arbitrary: qs)
  case Nil
  then show ?case by (auto split: option.splits sum.splits)
next
  case (Cons completed sched)
  show ?case
  proof (cases "ready_token end_tok pop qs")
    case (Some r)
    then show ?thesis using Cons.prems by (auto split: sum.splits)
  next
    case None
    then obtain qs1 where 1: "process_done end_tok qs (remdups completed) = Inr qs1"
      and 2: "get_across_loop end_tok pop qs1 sched = Some (Inr (t, qs', sched'))"
      using Cons.prems(2) by (auto split: if_splits sum.splits)
    from process_done_read_ok [OF Cons.prems(1) 1] have "list_all2 read_ok qs0 qs1" .
    from Cons.IH [OF this 2] show ?thesis .
  qed
qed

lemma pre_sync_pull_from:
  "pre_sync pop st sched = Some (Inr (st1, sched1)) \<Longrightarrow>
   pull_from st1 = pull_from st \<and> end_token st1 = end_token st"
  by (auto simp: pre_sync_def split: if_splits option.splits sum.splits)

text \<open>
  Claim C1: a stepper with at least one \<^verbatim>\<open>pull_from\<close> queue returns a token from
  \<^verbatim>\<open>get()\<close> only when the token is in the pending set of every \<^verbatim>\<open>pull_from\<close> queue,
  that is, after it was read from each of them, and the delivery removes it from every
  pending set. The hypotheses are that \<^verbatim>\<open>set.pop\<close> returns an element of the (finite,
  non-empty) set it is given, and that the queues agree with their history (\<open>read_ok\<close>),
  which holds for new queues and which \<^verbatim>\<open>get()\<close> preserves.
\<close>

theorem stepper_get_delivers_common_token:
  assumes pop: "\<And>S. finite S \<Longrightarrow> S \<noteq> {} \<Longrightarrow> pop S \<in> S"
    and inv: "list_all2 read_ok qs0 (pull_from st)"
    and k: "pull_from st \<noteq> []"
    and g: "get pop st sched = Some (Inr (t, st', sched'))"
  shows "(\<exists>mid. list_all2 read_ok qs0 mid
            \<and> (\<forall>q\<in>set mid. t \<in> pending q)
            \<and> pull_from st' = map (\<lambda>q. q\<lparr>pending := pending q - {t}\<rparr>) mid)
       \<and> (\<forall>i<length qs0. t \<in> set (tokens_read (qs0 ! i) (pull_from st' ! i)))
       \<and> (\<forall>q\<in>set (pull_from st'). t \<notin> pending q)
       \<and> list_all2 read_ok qs0 (pull_from st')"
proof -
  from g obtain st1 sched1 where ps: "pre_sync pop st sched = Some (Inr (st1, sched1))"
    by (auto simp: get_def split: option.splits sum.splits)
  from pre_sync_pull_from [OF ps] have pf: "pull_from st1 = pull_from st" 
    and et: "end_token st1 = end_token st" by simp_all
  from g ps obtain qs' where
    ga: "get_across (end_token st) pop (pull_from st) sched1 = Some (Inr (t, qs', sched'))"
    and st': "pull_from st' = qs'"
    by (auto simp: get_def pf et split: option.splits sum.splits)
  from ga k have "get_across_loop (end_token st) pop (pull_from st) sched1
                  = Some (Inr (t, qs', sched'))"
    by (simp add: get_across_def)
  from get_across_loop_ready [OF inv this] obtain mid where
    mid: "list_all2 read_ok qs0 mid"
    and rt: "ready_token (end_token st) pop mid = Some (Inr (t, qs'))" by blast
  have len: "length mid = length qs0" using mid by (simp add: list_all2_lengthD)
  have midne: "mid \<noteq> []" using len inv k by (auto dest: list_all2_lengthD)
  have fin: "\<forall>q\<in>set mid. finite (pending q)"
  proof
    fix q assume "q \<in> set mid"
    then obtain i where i: "i < length mid" "q = mid ! i" by (auto simp: in_set_conv_nth)
    have "i < length qs0" using i(1) len by simp
    from list_all2_nthD [OF mid this] have "read_ok (qs0 ! i) q" unfolding i(2) .
    then show "finite (pending q)" by (rule read_ok_finite)
  qed
  from ready_token_member [OF pop fin midne rt]
  have mem: "\<forall>q\<in>set mid. t \<in> pending q"
    and qs': "qs' = map (\<lambda>q. q\<lparr>pending := pending q - {t}\<rparr>) mid" by simp_all
  have 1: "\<exists>mid. list_all2 read_ok qs0 mid \<and> (\<forall>q\<in>set mid. t \<in> pending q)
            \<and> pull_from st' = map (\<lambda>q. q\<lparr>pending := pending q - {t}\<rparr>) mid"
    by (intro exI [of _ mid]) (simp add: mid mem qs' st')
  have 2: "\<forall>i<length qs0. t \<in> set (tokens_read (qs0 ! i) (pull_from st' ! i))"
  proof (intro allI impI)
    fix i assume i: "i < length qs0"
    from list_all2_nthD [OF mid i] have "read_ok (qs0 ! i) (mid ! i)" .
    moreover have "t \<in> pending (mid ! i)" using mem i len by simp
    ultimately have "t \<in> set (tokens_read (qs0 ! i) (mid ! i))"
      unfolding read_ok_def by blast
    then show "t \<in> set (tokens_read (qs0 ! i) (pull_from st' ! i))"
      using i len by (simp add: st' qs')
  qed
  have 3: "\<forall>q\<in>set (pull_from st'). t \<notin> pending q"
    by (simp add: st' qs')
  have 4: "list_all2 read_ok qs0 (pull_from st')"
    unfolding st' qs' list_all2_map2
    using mid by (rule list_all2_mono) (rule read_ok_remove)
  show ?thesis by (intro conjI 1 2 3 4)
qed

lemma Min_pop:
  fixes S :: "nat option set"
  shows "finite S \<Longrightarrow> S \<noteq> {} \<Longrightarrow> Min S \<in> S"
  by (rule Min_in)

lemma get_example:
  "get Min (new_stepper [] [new_queue [Some (0::nat), None], new_queue [Some 0, None]] [] [] None)
     [[0, 1]]
   = Some (Inr (Some 0,
        \<lparr>sync_from = [],
         pull_from = [\<lparr>items = [None], pending = {}, q_done = False\<rparr>,
                      \<lparr>items = [None], pending = {}, q_done = False\<rparr>],
         send_to = [], sync_to = [], end_token = None, last_value = Some 0,
         pre_sync_met = True\<rparr>, []))"
  by (simp add: get_def pre_sync_def get_across_def new_stepper_def new_queue_def
      ready_token_def Let_def)

theorem stepper_get_delivers_common_token_witness:
  "pull_from (new_stepper [] [new_queue [Some (0::nat), None], new_queue [Some 0, None]] [] []
      None) \<noteq> []
   \<and> get Min (new_stepper [] [new_queue [Some (0::nat), None], new_queue [Some 0, None]] [] [] None)
       [[0, 1]]
     = Some (Inr (Some 0,
        \<lparr>sync_from = [],
         pull_from = [\<lparr>items = [None], pending = {}, q_done = False\<rparr>,
                      \<lparr>items = [None], pending = {}, q_done = False\<rparr>],
         send_to = [], sync_to = [], end_token = None, last_value = Some 0,
         pre_sync_met = True\<rparr>, []))
   \<and> Some 0 \<in> set (tokens_read (new_queue [Some (0::nat), None])
                      \<lparr>items = [None], pending = {}, q_done = False\<rparr>)
   \<and> read_ok (new_queue [Some (0::nat), None]) \<lparr>items = [None], pending = {}, q_done = False\<rparr>"
proof -
  let ?qs0 = "[new_queue [Some (0::nat), None], new_queue [Some 0, None]]"
  let ?st = "new_stepper [] ?qs0 [] [] (None :: nat option)"
  have inv: "list_all2 read_ok ?qs0 (pull_from ?st)"
    by (simp add: new_stepper_def read_ok_new_queue)
  have k: "pull_from ?st \<noteq> []" by (simp add: new_stepper_def)
  from stepper_get_delivers_common_token [of Min ?qs0 ?st, OF Min_pop inv k get_example]
  show ?thesis using k get_example by (simp add: less_Suc_eq_0_disj)
qed

text \<open>
  Claim C5 says that the reorder step emits the tokens it receives in ascending order and
  then the end token, so that the arrivals 2, 0, 3, 1, end give 0, 1, 2, 3, end. The body
  of \<^verbatim>\<open>Step.reorder\<close> is empty: with these arrivals waiting on its \<^verbatim>\<open>pull_from\<close> queue,
  its \<^verbatim>\<open>send_to\<close> queue is still empty when the coroutine returns, and the end token is
  never put.
\<close>

theorem reorder_emits_nothing:
  "map items (send_to (reorder cmdargs worklist
      (new_stepper [] [new_queue [Some (2::nat), Some 0, Some 3, Some 1, None]] [new_queue []] []
         None)))
   = [[]]"
  by (simp add: reorder_def new_stepper_def new_queue_def)

lemma put_example:
  "map items (send_to (put (put (new_stepper [] [] [new_queue []] [] None) (Some (0::nat))) None))
   = [[Some 0, None]]"
  by (simp add: put_def new_stepper_def new_queue_def)

subsection \<open>The progress sidecar\<close>

lemma write_json_example:
  "write_json (PAudioInfo (PFloat 1) (PTimeRange (PFloat 0) (PFloat 3)) PNone PNone (PList []))
   = Inr (JObject
       [(''duration_s'', JNumber 1),
        (''speech_range'', JObject [(''start'', JNumber 0), (''duration'', JNumber 3)]),
        (''recognized_speech'', JNull), (''parsed_timestamp'', JNull),
        (''extra_speech'', JArray []),
        (''__dataclass__'', JString ''AudioInfo'')])"
  by (simp add: write_json_def default_hook_def)

lemma read_json_example:
  "read_json (JObject
       [(''duration_s'', JNumber 1),
        (''speech_range'', JObject [(''start'', JNumber 0), (''duration'', JNumber 3)]),
        (''recognized_speech'', JNull), (''parsed_timestamp'', JNull),
        (''extra_speech'', JArray []),
        (''__dataclass__'', JString ''AudioInfo'')])
   = Inr (PAudioInfo (PFloat 1) (PDict [(''start'', PFloat 0), (''duration'', PFloat 3)])
            PNone PNone (PList []))"
  by (simp add: read_json_def taketake_json_decode_def module_globals_def construct_def)

text \<open>
  Claim C6 says that an \<^verbatim>\<open>AudioInfo\<close> written with \<^verbatim>\<open>write_json\<close> and read with
  \<^verbatim>\<open>read_json\<close> is equal to the original, also when its \<^verbatim>\<open>speech_range\<close> is a
  \<^verbatim>\<open>TimeRange\<close>. \<^verbatim>\<open>dataclasses.asdict\<close> turns the nested \<^verbatim>\<open>TimeRange\<close> into a plain dict
  before the encoder can tag it, so the file holds no \<^verbatim>\<open>__dataclass__\<close> for it and the
  value read back has a dict as \<^verbatim>\<open>speech_range\<close>: it differs from the original.
\<close>

theorem audioinfo_roundtrip_loses_timerange:
  "write_json (PAudioInfo (PFloat 1) (PTimeRange (PFloat 0) (PFloat 3)) PNone PNone (PList []))
   = Inr (JObject
       [(''duration_s'', JNumber 1),
        (''speech_range'', JObject [(''start'', JNumber 0), (''duration'', JNumber 3)]),
        (''recognized_speech'', JNull), (''parsed_timestamp'', JNull),
        (''extra_speech'', JArray []),
        (''__dataclass__'', JString ''AudioInfo'')])
   \<and> read_json (JObject
       [(''duration_s'', JNumber 1),
        (''speech_range'', JObject [(''start'', JNumber 0), (''duration'', JNumber 3)]),
        (''recognized_speech'', JNull), (''parsed_timestamp'', JNull),
        (''extra_speech'', JArray []),
        (''__dataclass__'', JString ''AudioInfo'')])
     = Inr (PAudioInfo (PFloat 1) (PDict [(''start'', PFloat 0), (''duration'', PFloat 3)])
              PNone PNone (PList []))
   \<and> PAudioInfo (PFloat 1) (PDict [(''start'', PFloat 0), (''duration'', PFloat 3)])
         PNone PNone (PList [])
     \<noteq> PAudioInfo (PFloat 1) (PTimeRange (PFloat 0) (PFloat 3)) PNone PNone (PList [])"
  unfolding write_json_example read_json_example by simp

lemma audioinfo_roundtrip_without_speech_range:
  "write_json (PAudioInfo (PFloat 1) PNone (PStr ''x'') (PDatetime 5) (PList [PStr ''a'']))
   = Inr (JObject
       [(''duration_s'', JNumber 1), (''speech_range'', JNull),
        (''recognized_speech'', JString ''x''),
        (''parsed_timestamp'', JObject [(''__datetime__'', JBool True), (''timestamp'', JNumber 5)]),
        (''extra_speech'', JArray [JString ''a'']),
        (''__dataclass__'', JString ''AudioInfo'')])
   \<and> read_json (JObject
       [(''duration_s'', JNumber 1), (''speech_range'', JNull),
        (''recognized_speech'', JString ''x''),
        (''parsed_timestamp'', JObject [(''__datetime__'', JBool True), (''timestamp'', JNumber 5)]),
        (''extra_speech'', JArray [JString ''a'']),
        (''__dataclass__'', JString ''AudioInfo'')])
     = Inr (PAudioInfo (PFloat 1) PNone (PStr ''x'') (PDatetime 5) (PList [PStr ''a'']))"
  by (simp add: write_json_def default_hook_def read_json_def taketake_json_decode_def
      module_globals_def construct_def)

subsection \<open>The byte-delta verifier\<close>

lemma header_values_Nil [simp]: "header_values k [] = []"
  by (simp add: header_values_def)









lemma header_line_props: "header_line \<noteq> []" "CHR '':'' \<notin> set header_line"
  by (simp_all add: header_line_def)

lemma not_header_line: "strip c = header_line \<Longrightarrow> \<not> is_header_line c"
  using header_line_props by (simp add: is_header_line_def)
























end
